theory Spec2Isabelle
  imports Main
begin

section \<open>Conventions\<close>

text \<open>
  A shallow embedding of the authentication core of the sample application
  (types, permissions, middleware, tokens, password hashing, sessions and the
  login controller).

  \<^item> JavaScript strings are \<open>string\<close>; string enums (\<open>UserRole\<close>, \<open>Permission\<close>,
    \<open>AuditAction\<close>) are strings at run time, and a role read from a decoded token
    can be any string, so they are modelled as strings with named constants.
  \<^item> Numbers are \<open>int\<close>. \<open>Date.now()\<close> is a parameter \<open>now\<close> in milliseconds, a
    \<open>Date\<close> is its millisecond value, and \<open>Math.floor (Date.now() / 1000)\<close> is
    \<open>now div 1000\<close>. One call reads one clock value.
  \<^item> Every \<open>crypto.randomUUID()\<close> result is a parameter of the function that draws it.
  \<^item> A thrown exception or rejected promise is \<open>Inl\<close> of an \<open>exn\<close>.
  \<^item> The connection that \<open>getConnection()\<close> returns is a parameter \<open>db\<close> of every function
    that queries: \<open>DatabaseConnection_query\<close> is the repository's, \<open>relational_query\<close> a
    store that executes the statements.
  \<^item> Logger calls only print to the console; they are not part of the model.
\<close>

datatype exn = DatabaseNotConnected | TimingSafeEqualLength | ScryptFailure

section \<open>Types (types/index.ts)\<close>

type_synonym UserRole = string

definition Admin :: UserRole where "Admin = ''admin''"
definition Moderator :: UserRole where "Moderator = ''moderator''"
definition User :: UserRole where "User = ''user''"
definition Guest :: UserRole where "Guest = ''guest''"

record JwtPayload =
  sub :: string
  email :: string
  role :: UserRole
  iat :: int
  exp :: int
  jti :: string

record AuthTokens =
  accessToken :: string
  refreshToken :: string
  expiresIn :: int
  tokenType :: string

record 'a ApiResponse =
  success :: bool
  data :: "'a option"
  error :: "string option"
  message :: "string option"
  statusCode :: int

section \<open>Permissions (auth/permissions.ts)\<close>

type_synonym Permission = string

definition ReadOwnProfile :: Permission where "ReadOwnProfile = ''read:own_profile''"
definition UpdateOwnProfile :: Permission where "UpdateOwnProfile = ''update:own_profile''"
definition DeleteOwnAccount :: Permission where "DeleteOwnAccount = ''delete:own_account''"
definition ReadAnyProfile :: Permission where "ReadAnyProfile = ''read:any_profile''"
definition UpdateAnyProfile :: Permission where "UpdateAnyProfile = ''update:any_profile''"
definition DeleteAnyAccount :: Permission where "DeleteAnyAccount = ''delete:any_account''"
definition ListUsers :: Permission where "ListUsers = ''list:users''"
definition ManageRoles :: Permission where "ManageRoles = ''manage:roles''"
definition ViewAuditLog :: Permission where "ViewAuditLog = ''view:audit_log''"

text \<open>\<open>Object.values(Permission)\<close>: the members in declaration order.\<close>

definition Permission_values :: "Permission list" where
  "Permission_values =
     [ReadOwnProfile, UpdateOwnProfile, DeleteOwnAccount, ReadAnyProfile, UpdateAnyProfile,
      DeleteAnyAccount, ListUsers, ManageRoles, ViewAuditLog]"

text \<open>
  The entries the \<open>Map\<close> is built from. The four keys are distinct, so \<open>Map.get\<close> is
  \<open>map_of\<close> on the entries.
\<close>

definition RolePermissions :: "(UserRole \<times> Permission list) list" where
  "RolePermissions =
     [(Guest, [ReadOwnProfile]),
      (User, [ReadOwnProfile, UpdateOwnProfile, DeleteOwnAccount]),
      (Moderator, [ReadOwnProfile, UpdateOwnProfile, DeleteOwnAccount, ReadAnyProfile,
                   ListUsers, ViewAuditLog]),
      (Admin, Permission_values)]"

definition hasPermission :: "UserRole \<Rightarrow> Permission \<Rightarrow> bool" where
  "hasPermission r p =
     (case map_of RolePermissions r of
        None \<Rightarrow> False
      | Some permissions \<Rightarrow> p \<in> set permissions)"

definition isAdmin :: "UserRole \<Rightarrow> bool" where
  "isAdmin r = (r = Admin)"

section \<open>Middleware (api/middleware/auth-middleware.ts)\<close>

record Request =
  headers :: "string \<rightharpoonup> string"
  user :: "JwtPayload option"
  ip :: "string option"

text \<open>
  A middleware either calls \<open>next()\<close> or answers with \<open>res.status(code).json(body)\<close>
  and returns without calling \<open>next\<close>.
\<close>

datatype flow = Next | Reply int "unit ApiResponse"

definition failure :: "string \<Rightarrow> int \<Rightarrow> 'a ApiResponse" where
  "failure msg code =
     \<lparr>success = False, data = None, error = Some msg, message = None, statusCode = code\<rparr>"

definition requireRole :: "UserRole list \<Rightarrow> Request \<Rightarrow> flow" where
  "requireRole roles req =
     (case user req of
        None \<Rightarrow> Reply 401 (failure ''Authentication required'' 401)
      | Some u \<Rightarrow>
          if role u \<notin> set roles then Reply 403 (failure ''Forbidden'' 403)
          else Next)"

record RateLimitEntry =
  count :: int
  resetAt :: int

type_synonym rateLimitStore = "string \<rightharpoonup> RateLimitEntry"

text \<open>\<open>req.ip ?? "unknown"\<close>\<close>

definition rateLimitKey :: "Request \<Rightarrow> string" where
  "rateLimitKey req = (case ip req of None \<Rightarrow> ''unknown'' | Some a \<Rightarrow> a)"

text \<open>
  \<open>rateLimitAuth maxAttempts windowMs\<close> applied to a request at clock value \<open>now\<close>,
  with the module-level store passed in and returned.
\<close>

definition rateLimitAuth ::
  "int \<Rightarrow> int \<Rightarrow> Request \<Rightarrow> int \<Rightarrow> rateLimitStore \<Rightarrow> flow \<times> rateLimitStore" where
  "rateLimitAuth maxAttempts windowMs req now store =
     (let key = rateLimitKey req in
      case store key of
        None \<Rightarrow> (Next, store(key \<mapsto> \<lparr>count = 1, resetAt = now + windowMs\<rparr>))
      | Some entry \<Rightarrow>
          if resetAt entry > now then
            if count entry \<ge> maxAttempts
            then (Reply 429 (failure ''Too many attempts. Try again later.'' 429), store)
            else (Next, store(key \<mapsto> entry\<lparr>count := count entry + 1\<rparr>))
          else (Next, store(key \<mapsto> \<lparr>count = 1, resetAt = now + windowMs\<rparr>)))"

section \<open>Strings\<close>

text \<open>
  \<open>s.split(c)\<close> for a one-character separator: the pieces between the separators,
  always at least one piece.
\<close>

fun str_split :: "char \<Rightarrow> string \<Rightarrow> string list" where
  "str_split c [] = [[]]"
| "str_split c (x # xs) =
     (if x = c then [] # str_split c xs
      else (case str_split c xs of
              [] \<Rightarrow> [[x]]
            | p # ps \<Rightarrow> (x # p) # ps))"

text \<open>\<open>s.toLowerCase()\<close> on the ASCII letters.\<close>

definition toLowerCase :: "string \<Rightarrow> string" where
  "toLowerCase s =
     map (\<lambda>c. let n = (of_char c :: int) in
               if 65 \<le> n \<and> n \<le> 90 then char_of (n + 32) else c) s"

section \<open>Configuration (config/env.ts)\<close>

text \<open>The settings read by the modelled code, as numbers and strings already parsed.\<close>

record config =
  JWT_SECRET :: string
  JWT_EXPIRY :: int
  REFRESH_EXPIRY :: int

text \<open>The fallbacks used when the environment sets nothing.\<close>

definition default_config :: config where
  "default_config =
     \<lparr>JWT_SECRET = ''dev-secret-change-in-production'', JWT_EXPIRY = 900,
      REFRESH_EXPIRY = 604800\<rparr>"

section \<open>Platform functions\<close>

text \<open>
  The functions of Node.js that the code calls, taken as parameters:
  \<^item> \<open>hmacSha256\<close>: \<open>crypto.createHmac("sha256", secret).update(data).digest("base64url")\<close>;
  \<^item> \<open>encodeBase64url\<close>: \<open>Buffer.from(s).toString("base64url")\<close>;
  \<^item> \<open>decodeBase64url\<close>: \<open>Buffer.from(s, "base64url").toString()\<close>;
  \<^item> \<open>jsonStringify\<close>: \<open>JSON.stringify\<close> of a payload;
  \<^item> \<open>jsonParse\<close>: \<open>JSON.parse\<close> read at the declared type \<open>JwtPayload\<close>, \<open>None\<close> when it
    throws;
  \<^item> \<open>scrypt\<close>: \<open>crypto.scrypt (password, salt, keylen, {N})\<close>, the error or the derived
    key handed to the callback.
  A \<open>Buffer\<close> is its list of byte values (0 to 255).
\<close>

type_synonym Buffer = "int list"

record platform =
  hmacSha256 :: "string \<Rightarrow> string \<Rightarrow> string"
  encodeBase64url :: "string \<Rightarrow> string"
  decodeBase64url :: "string \<Rightarrow> string"
  jsonStringify :: "JwtPayload \<Rightarrow> string"
  jsonParse :: "string \<Rightarrow> JwtPayload option"
  scrypt :: "string \<Rightarrow> string \<Rightarrow> nat \<Rightarrow> int \<Rightarrow> exn + Buffer"

section \<open>Tokens (auth/jwt.ts)\<close>

definition base64url :: "platform \<Rightarrow> string \<Rightarrow> string" where
  "base64url L input = encodeBase64url L input"

text \<open>\<open>JSON.stringify({ alg: "HS256", typ: "JWT" })\<close>\<close>

definition jwt_header_json :: string where
  "jwt_header_json =
     [CHR ''{'', CHR 0x22] @ ''alg'' @ [CHR 0x22, CHR '':'', CHR 0x22] @ ''HS256''
     @ [CHR 0x22, CHR '','', CHR 0x22] @ ''typ'' @ [CHR 0x22, CHR '':'', CHR 0x22] @ ''JWT''
     @ [CHR 0x22, CHR ''}'']"

definition sign :: "platform \<Rightarrow> JwtPayload \<Rightarrow> string \<Rightarrow> string" where
  "sign L payload secret =
     (let header = base64url L jwt_header_json;
          body = base64url L (jsonStringify L payload);
          signature = hmacSha256 L secret (header @ ''.'' @ body)
      in header @ ''.'' @ body @ ''.'' @ signature)"

definition generateAccessToken ::
  "platform \<Rightarrow> config \<Rightarrow> int \<Rightarrow> string \<Rightarrow> string \<Rightarrow> string \<Rightarrow> UserRole \<Rightarrow> string" where
  "generateAccessToken L cfg now uuid userId mail r =
     sign L \<lparr>sub = userId, email = mail, role = r, iat = now div 1000,
              exp = now div 1000 + JWT_EXPIRY cfg, jti = uuid\<rparr>
       (JWT_SECRET cfg)"

definition generateRefreshToken ::
  "platform \<Rightarrow> config \<Rightarrow> int \<Rightarrow> string \<Rightarrow> string \<Rightarrow> string \<Rightarrow> UserRole \<Rightarrow> string" where
  "generateRefreshToken L cfg now uuid userId mail r =
     sign L \<lparr>sub = userId, email = mail, role = r, iat = now div 1000,
              exp = now div 1000 + REFRESH_EXPIRY cfg, jti = uuid\<rparr>
       (JWT_SECRET cfg @ ''_refresh'')"

text \<open>
  The \<open>try\<close> block returns \<open>null\<close> on any exception; the only call that can throw is
  \<open>JSON.parse\<close>.
\<close>

definition verifyToken ::
  "platform \<Rightarrow> config \<Rightarrow> int \<Rightarrow> string \<Rightarrow> bool \<Rightarrow> JwtPayload option" where
  "verifyToken L cfg now token isRefresh =
     (case str_split CHR ''.'' token of
        [p0, p1, p2] \<Rightarrow>
          (let secret = (if isRefresh then JWT_SECRET cfg @ ''_refresh'' else JWT_SECRET cfg);
               expectedSig = hmacSha256 L secret (p0 @ ''.'' @ p1)
           in if expectedSig \<noteq> p2 then None
              else (case jsonParse L (decodeBase64url L p1) of
                      None \<Rightarrow> None
                    | Some payload \<Rightarrow>
                        if exp payload < now div 1000 then None else Some payload))
      | _ \<Rightarrow> None)"

definition decodeToken :: "platform \<Rightarrow> string \<Rightarrow> JwtPayload option" where
  "decodeToken L token =
     (case str_split CHR ''.'' token of
        [p0, p1, p2] \<Rightarrow> jsonParse L (decodeBase64url L p1)
      | _ \<Rightarrow> None)"

text \<open>The two \<open>randomUUID\<close> draws are \<open>uuidA\<close> (access token) and \<open>uuidR\<close> (refresh token).\<close>

definition createTokenPair ::
  "platform \<Rightarrow> config \<Rightarrow> int \<Rightarrow> string \<Rightarrow> string \<Rightarrow> string \<Rightarrow> string \<Rightarrow> UserRole
     \<Rightarrow> AuthTokens" where
  "createTokenPair L cfg now uuidA uuidR userId mail r =
     \<lparr>accessToken = generateAccessToken L cfg now uuidA userId mail r,
      refreshToken = generateRefreshToken L cfg now uuidR userId mail r,
      expiresIn = JWT_EXPIRY cfg,
      tokenType = ''Bearer''\<rparr>"

section \<open>Password hashing (utils/hash.ts)\<close>

definition SALT_LENGTH :: nat where "SALT_LENGTH = 32"
definition KEY_LENGTH :: nat where "KEY_LENGTH = 64"
definition SCRYPT_COST :: int where "SCRYPT_COST = 16384"

definition hex_digit :: "char \<Rightarrow> int option" where
  "hex_digit c =
     (let n = (of_char c :: int) in
      if 48 \<le> n \<and> n \<le> 57 then Some (n - 48)
      else if 97 \<le> n \<and> n \<le> 102 then Some (n - 87)
      else if 65 \<le> n \<and> n \<le> 70 then Some (n - 55)
      else None)"

text \<open>
  \<open>Buffer.from(s, "hex")\<close>: one byte for each pair of hexadecimal digits, stopping at
  the first pair that is not one; a trailing single character is dropped.
\<close>

fun Buffer_from_hex :: "string \<Rightarrow> Buffer" where
  "Buffer_from_hex (a # b # rest) =
     (case (hex_digit a, hex_digit b) of
        (Some x, Some y) \<Rightarrow> (16 * x + y) # Buffer_from_hex rest
      | _ \<Rightarrow> [])"
| "Buffer_from_hex _ = []"

text \<open>\<open>buf.toString("hex")\<close>: two lower-case digits for each byte.\<close>

definition hex_char :: "int \<Rightarrow> char" where
  "hex_char d = (if d < 10 then char_of (48 + d) else char_of (87 + d))"

definition Buffer_to_hex :: "Buffer \<Rightarrow> string" where
  "Buffer_to_hex bs = concat (map (\<lambda>b. [hex_char (b div 16), hex_char (b mod 16)]) bs)"

text \<open>
  \<open>crypto.timingSafeEqual\<close> throws a \<open>RangeError\<close> when the two buffers differ in length.
\<close>

definition timingSafeEqual :: "Buffer \<Rightarrow> Buffer \<Rightarrow> exn + bool" where
  "timingSafeEqual a b =
     (if length a \<noteq> length b then Inl TimingSafeEqualLength else Inr (a = b))"

text \<open>\<open>randomBytes\<close> is the value drawn by \<open>crypto.randomBytes(SALT_LENGTH)\<close>.\<close>

definition generateSalt :: "Buffer \<Rightarrow> string" where
  "generateSalt randomBytes = Buffer_to_hex randomBytes"

definition hashPassword :: "platform \<Rightarrow> Buffer \<Rightarrow> string \<Rightarrow> exn + string" where
  "hashPassword L randomBytes password =
     (let salt = generateSalt randomBytes in
      case scrypt L password salt KEY_LENGTH SCRYPT_COST of
        Inl err \<Rightarrow> Inl err
      | Inr derivedKey \<Rightarrow> Inr (salt @ '':'' @ Buffer_to_hex derivedKey))"

text \<open>
  \<open>const [salt, hash] = storedHash.split(":")\<close> takes the first two pieces; \<open>hash\<close> is
  \<open>undefined\<close> when there is one piece only, and \<open>!x\<close> holds of \<open>undefined\<close> and of the
  empty string. An exception of \<open>timingSafeEqual\<close>, raised inside the scrypt callback,
  is a failure of the call (\<open>Inl\<close>) like the rejection on a scrypt error.
\<close>

definition comparePassword :: "platform \<Rightarrow> string \<Rightarrow> string \<Rightarrow> exn + bool" where
  "comparePassword L password storedHash =
     (case str_split CHR '':'' storedHash of
        salt # hash # _ \<Rightarrow>
          if salt = [] \<or> hash = [] then Inr False
          else (case scrypt L password salt KEY_LENGTH SCRYPT_COST of
                  Inl err \<Rightarrow> Inl err
                | Inr derivedKey \<Rightarrow> timingSafeEqual (Buffer_from_hex hash) derivedKey)
      | _ \<Rightarrow> Inr False)"

section \<open>Stored data and the database connection (config/database.ts)\<close>

text \<open>
  The rows that the SQL statements of the models name, and the state they live in: the
  connection flag and the three tables, each a list of rows.

  The field \<open>comparePassword_calls\<close> is not program state: it lists the arguments of
  every \<open>comparePassword\<close> call the controller has made, so that "is not called" can be
  stated.
\<close>

record User =
  user_id :: string
  user_email :: string
  username :: string
  passwordHash :: string
  user_role :: UserRole
  isActive :: bool
  emailVerified :: bool
  lastLoginAt :: "int option"
  createdAt :: int
  updatedAt :: int

record Session =
  session_id :: string
  session_userId :: string
  session_refreshToken :: string
  session_userAgent :: string
  session_ipAddress :: string
  expiresAt :: int
  session_createdAt :: int

type_synonym AuditAction = string

definition AuditAction_Login :: AuditAction where "AuditAction_Login = ''LOGIN''"

record AuditLogEntry =
  audit_id :: string
  audit_userId :: string
  action :: AuditAction
  metadata :: "(string \<times> string) list"
  audit_ipAddress :: string
  audit_userAgent :: string
  audit_createdAt :: int

record state =
  connected :: bool
  users :: "User list"
  sessions :: "Session list"
  audit_logs :: "AuditLogEntry list"
  comparePassword_calls :: "(string \<times> string) list"

text \<open>
  The SQL statements that the modelled code sends, each with its parameters:
  \<^item> \<open>SelectUserById id\<close>: \<open>SELECT * FROM users WHERE id = $1\<close>;
  \<^item> \<open>SelectUserByEmail email\<close>: \<open>SELECT * FROM users WHERE email = $1\<close>;
  \<^item> \<open>UpdateUser fields updatedAt id\<close>: \<open>UPDATE users SET ..., updated_at = $n WHERE id = $m\<close>,
    the fields to set given as the change they make to a row;
  \<^item> \<open>InsertSession row\<close>: \<open>INSERT INTO sessions (...) VALUES (...)\<close>;
  \<^item> \<open>DeleteSession id\<close>: \<open>DELETE FROM sessions WHERE id = $1\<close>;
  \<^item> \<open>SelectActiveSessionByToken token\<close>:
    \<open>SELECT * FROM sessions WHERE refresh_token = $1 AND expires_at > NOW()\<close>;
  \<^item> \<open>UpdateSessionToken new old\<close>:
    \<open>UPDATE sessions SET refresh_token = $1 WHERE refresh_token = $2\<close>;
  \<^item> \<open>SelectActiveSessionById id\<close>:
    \<open>SELECT * FROM sessions WHERE id = $1 AND expires_at > NOW()\<close>;
  \<^item> \<open>InsertAuditLog row\<close>: \<open>INSERT INTO audit_logs (...) VALUES (...)\<close>.
\<close>

datatype statement =
    SelectUserById string
  | SelectUserByEmail string
  | UpdateUser "User \<Rightarrow> User" int string
  | InsertSession Session
  | DeleteSession string
  | SelectActiveSessionByToken string
  | UpdateSessionToken string string
  | SelectActiveSessionById string
  | InsertAuditLog AuditLogEntry

datatype row = UserRow User | SessionRow Session | AuditRow AuditLogEntry

text \<open>
  A connection answers a statement, at the clock value of the call, with an exception
  or the rows of the result (\<open>rowCount\<close> is their number), and leaves a new state.
  It is what \<open>getConnection()\<close> returns, and a parameter of every function that
  queries.
\<close>

type_synonym connection = "statement \<Rightarrow> int \<Rightarrow> state \<Rightarrow> (exn + row list) \<times> state"

text \<open>
  \<open>DatabaseConnection.query\<close> as the repository has it: it throws when the connection
  is not open, and otherwise ignores the statement and returns no rows. This is the
  connection of the code as shipped.
\<close>

definition DatabaseConnection_query :: connection where
  "DatabaseConnection_query sql now st =
     (if \<not> connected st then (Inl DatabaseNotConnected, st)
      else (Inr [], st))"

text \<open>
  Modelled from the spec: the persistence collaborator, which the repository replaces
  by the placeholder above. The spec (sections 3, 4.3 and 6) describes it as a keyed
  store of session rows and user records with read, write, delete and a conditional
  update keyed by the old token value, whose failures propagate to the caller. Here
  every statement has its SQL meaning on the tables: a \<open>SELECT\<close> returns the rows that
  satisfy its \<open>WHERE\<close> clause, with \<open>NOW()\<close> the clock value of the call; \<open>INSERT\<close> adds
  the row; \<open>UPDATE\<close> changes the rows that satisfy its \<open>WHERE\<close> clause; \<open>DELETE\<close> removes
  them.
\<close>

definition relational_query :: connection where
  "relational_query sql now st =
     (if \<not> connected st then (Inl DatabaseNotConnected, st)
      else
        (case sql of
           SelectUserById uid \<Rightarrow>
             (Inr (map UserRow (filter (\<lambda>u. user_id u = uid) (users st))), st)
         | SelectUserByEmail mail \<Rightarrow>
             (Inr (map UserRow (filter (\<lambda>u. user_email u = mail) (users st))), st)
         | UpdateUser changes stamp uid \<Rightarrow>
             (Inr [],
              st\<lparr>users :=
                   map (\<lambda>u. if user_id u = uid then (changes u)\<lparr>updatedAt := stamp\<rparr> else u)
                     (users st)\<rparr>)
         | InsertSession s \<Rightarrow> (Inr [], st\<lparr>sessions := sessions st @ [s]\<rparr>)
         | DeleteSession sid \<Rightarrow>
             (Inr [], st\<lparr>sessions := filter (\<lambda>s. session_id s \<noteq> sid) (sessions st)\<rparr>)
         | SelectActiveSessionByToken token \<Rightarrow>
             (Inr (map SessionRow
                     (filter (\<lambda>s. session_refreshToken s = token \<and> expiresAt s > now)
                        (sessions st))), st)
         | UpdateSessionToken new old \<Rightarrow>
             (Inr [],
              st\<lparr>sessions :=
                   map (\<lambda>s. if session_refreshToken s = old
                             then s\<lparr>session_refreshToken := new\<rparr> else s)
                     (sessions st)\<rparr>)
         | SelectActiveSessionById sid \<Rightarrow>
             (Inr (map SessionRow
                     (filter (\<lambda>s. session_id s = sid \<and> expiresAt s > now) (sessions st))), st)
         | InsertAuditLog e \<Rightarrow> (Inr [], st\<lparr>audit_logs := audit_logs st @ [e]\<rparr>)))"

text \<open>\<open>result.rows[0] ?? null\<close> of a query for users, and \<open>result.rows[0]\<close> of one for sessions.\<close>

definition first_user :: "row list \<Rightarrow> User option" where
  "first_user rows = (case rows of UserRow u # _ \<Rightarrow> Some u | _ \<Rightarrow> None)"

definition first_session :: "row list \<Rightarrow> Session option" where
  "first_session rows = (case rows of SessionRow s # _ \<Rightarrow> Some s | _ \<Rightarrow> None)"

section \<open>User model (api/models/user-model.ts)\<close>

definition UserModel_findById ::
  "connection \<Rightarrow> int \<Rightarrow> string \<Rightarrow> state \<Rightarrow> (exn + User option) \<times> state" where
  "UserModel_findById db now uid st =
     (case db (SelectUserById uid) now st of
        (Inl err, st') \<Rightarrow> (Inl err, st')
      | (Inr rows, st') \<Rightarrow> (Inr (first_user rows), st'))"

text \<open>The address is lower-cased before the query.\<close>

definition UserModel_findByEmail ::
  "connection \<Rightarrow> int \<Rightarrow> string \<Rightarrow> state \<Rightarrow> (exn + User option) \<times> state" where
  "UserModel_findByEmail db now mail st =
     (case db (SelectUserByEmail (toLowerCase mail)) now st of
        (Inl err, st') \<Rightarrow> (Inl err, st')
      | (Inr rows, st') \<Rightarrow> (Inr (first_user rows), st'))"

text \<open>The update statement, then \<open>findById\<close>.\<close>

definition UserModel_update ::
  "connection \<Rightarrow> int \<Rightarrow> string \<Rightarrow> (User \<Rightarrow> User) \<Rightarrow> state \<Rightarrow> (exn + User option) \<times> state" where
  "UserModel_update db now uid changes st =
     (case db (UpdateUser changes now uid) now st of
        (Inl err, st') \<Rightarrow> (Inl err, st')
      | (Inr rows, st') \<Rightarrow> UserModel_findById db now uid st')"

section \<open>Audit log (api/models/audit-log-model.ts)\<close>

text \<open>The optional fields default to \<open>{}\<close> and \<open>"unknown"\<close>.\<close>

definition AuditLogModel_create ::
  "connection \<Rightarrow> int \<Rightarrow> string \<Rightarrow> string \<Rightarrow> AuditAction \<Rightarrow> (string \<times> string) list option
     \<Rightarrow> string option \<Rightarrow> string option \<Rightarrow> state \<Rightarrow> (exn + AuditLogEntry) \<times> state" where
  "AuditLogModel_create db now uuid uid act meta ipAddress userAgent st =
     (let entry = \<lparr>audit_id = uuid, audit_userId = uid, action = act,
                   metadata = (case meta of None \<Rightarrow> [] | Some m \<Rightarrow> m),
                   audit_ipAddress = (case ipAddress of None \<Rightarrow> ''unknown'' | Some a \<Rightarrow> a),
                   audit_userAgent = (case userAgent of None \<Rightarrow> ''unknown'' | Some a \<Rightarrow> a),
                   audit_createdAt = now\<rparr>
      in case db (InsertAuditLog entry) now st of
           (Inl err, st') \<Rightarrow> (Inl err, st')
         | (Inr rows, st') \<Rightarrow> (Inr entry, st'))"

section \<open>Sessions (auth/session.ts)\<close>

text \<open>
  \<open>create\<close>: the row is built with \<open>expiresAt = Date.now() + tokens.expiresIn * 1000\<close>,
  inserted, and returned. The parameters \<open>email\<close> and \<open>role\<close> are not used.
\<close>

definition SessionManager_create ::
  "connection \<Rightarrow> int \<Rightarrow> string \<Rightarrow> string \<Rightarrow> string \<Rightarrow> UserRole \<Rightarrow> AuthTokens \<Rightarrow> string
     \<Rightarrow> string \<Rightarrow> state \<Rightarrow> (exn + Session) \<times> state" where
  "SessionManager_create db now uuid userId mail r tokens userAgent ipAddress st =
     (let session = \<lparr>session_id = uuid, session_userId = userId,
                     session_refreshToken = refreshToken tokens,
                     session_userAgent = userAgent, session_ipAddress = ipAddress,
                     expiresAt = now + expiresIn tokens * 1000,
                     session_createdAt = now\<rparr>
      in case db (InsertSession session) now st of
           (Inl err, st') \<Rightarrow> (Inl err, st')
         | (Inr rows, st') \<Rightarrow> (Inr session, st'))"

definition SessionManager_destroy ::
  "connection \<Rightarrow> int \<Rightarrow> string \<Rightarrow> state \<Rightarrow> (exn + unit) \<times> state" where
  "SessionManager_destroy db now sid st =
     (case db (DeleteSession sid) now st of
        (Inl err, st') \<Rightarrow> (Inl err, st')
      | (Inr rows, st') \<Rightarrow> (Inr (), st'))"


text \<open>
  \<open>validate\<close>: with no active session of that id the result is \<open>null\<close>; otherwise the
  refresh token of the first row is verified.
\<close>

definition SessionManager_validate ::
  "connection \<Rightarrow> platform \<Rightarrow> config \<Rightarrow> int \<Rightarrow> string \<Rightarrow> state
     \<Rightarrow> (exn + JwtPayload option) \<times> state" where
  "SessionManager_validate db L cfg now sid st =
     (case db (SelectActiveSessionById sid) now st of
        (Inl err, st') \<Rightarrow> (Inl err, st')
      | (Inr rows, st') \<Rightarrow>
          if length rows = 0 then (Inr None, st')
          else (case first_session rows of
                  None \<Rightarrow> (Inr None, st')
                | Some s \<Rightarrow> (Inr (verifyToken L cfg now (session_refreshToken s) True), st')))"

section \<open>Login (api/controllers/auth-controller.ts)\<close>

record LoginCredentials =
  login_email :: string
  login_password :: string
  rememberMe :: "bool option"

text \<open>
  The four \<open>randomUUID\<close> draws of a successful login are the two token ids, the session
  id and the audit entry id.
\<close>

definition invalid_credentials :: "AuthTokens ApiResponse" where
  "invalid_credentials =
     \<lparr>success = False, data = None, error = Some ''Invalid credentials'', message = None,
      statusCode = 401\<rparr>"

definition AuthController_login ::
  "connection \<Rightarrow> platform \<Rightarrow> config \<Rightarrow> int \<Rightarrow> string \<times> string \<times> string \<times> string
     \<Rightarrow> LoginCredentials \<Rightarrow> string \<Rightarrow> string \<Rightarrow> state
     \<Rightarrow> (exn + AuthTokens ApiResponse) \<times> state" where
  "AuthController_login db L cfg now uuids credentials ipAddress userAgent st =
     (case uuids of (uuidA, uuidR, uuidS, uuidL) \<Rightarrow>
      case UserModel_findByEmail db now (login_email credentials) st of
        (Inl err, st0) \<Rightarrow> (Inl err, st0)
      | (Inr None, st0) \<Rightarrow> (Inr invalid_credentials, st0)
      | (Inr (Some u), st0) \<Rightarrow>
          if \<not> isActive u then (Inr invalid_credentials, st0)
          else
            (let st1 = st0\<lparr>comparePassword_calls :=
                            comparePassword_calls st0
                            @ [(login_password credentials, passwordHash u)]\<rparr>
             in case comparePassword L (login_password credentials) (passwordHash u) of
                  Inl err \<Rightarrow> (Inl err, st1)
                | Inr False \<Rightarrow> (Inr invalid_credentials, st1)
                | Inr True \<Rightarrow>
                    (let tokens = createTokenPair L cfg now uuidA uuidR
                                    (user_id u) (user_email u) (user_role u)
                     in case SessionManager_create db now uuidS (user_id u) (user_email u)
                               (user_role u) tokens userAgent ipAddress st1 of
                          (Inl err, st2) \<Rightarrow> (Inl err, st2)
                        | (Inr created, st2) \<Rightarrow>
                           (case UserModel_update db now (user_id u)
                                   (\<lambda>row. row\<lparr>lastLoginAt := Some now\<rparr>) st2 of
                              (Inl err, st3) \<Rightarrow> (Inl err, st3)
                            | (Inr updated, st3) \<Rightarrow>
                               (case AuditLogModel_create db now uuidL (user_id u)
                                       AuditAction_Login None (Some ipAddress)
                                       (Some userAgent) st3 of
                                  (Inl err, st4) \<Rightarrow> (Inl err, st4)
                                | (Inr logged, st4) \<Rightarrow>
                                    (Inr \<lparr>success = True, data = Some tokens, error = None,
                                          message = None, statusCode = 200\<rparr>, st4))))))"

section \<open>A sample platform\<close>

text \<open>
  Concrete platform functions on which the model can be run: base64url as in RFC 4648
  (URL-safe alphabet, no padding), the JSON text of a payload with a reader for that
  text, and simple checksums standing in for HMAC-SHA256 and scrypt (they are not the
  real algorithms; the theorems below hold for any platform that meets their stated
  conditions).
\<close>

definition sextet_char :: "int \<Rightarrow> char" where
  "sextet_char v =
     (if v < 26 then char_of (65 + v)
      else if v < 52 then char_of (71 + v)
      else if v < 62 then char_of (v - 4)
      else if v = 62 then CHR ''-'' else CHR ''_'')"

definition char_sextet :: "char \<Rightarrow> int option" where
  "char_sextet c =
     (let n = (of_char c :: int) in
      if 65 \<le> n \<and> n \<le> 90 then Some (n - 65)
      else if 97 \<le> n \<and> n \<le> 122 then Some (n - 71)
      else if 48 \<le> n \<and> n \<le> 57 then Some (n + 4)
      else if n = 45 then Some 62
      else if n = 95 then Some 63
      else None)"

fun sextets_of_bytes :: "int list \<Rightarrow> int list" where
  "sextets_of_bytes (a # b # c # rest) =
     [a div 4, (a mod 4) * 16 + b div 16, (b mod 16) * 4 + c div 64, c mod 64]
     @ sextets_of_bytes rest"
| "sextets_of_bytes [a, b] = [a div 4, (a mod 4) * 16 + b div 16, (b mod 16) * 4]"
| "sextets_of_bytes [a] = [a div 4, (a mod 4) * 16]"
| "sextets_of_bytes [] = []"

fun bytes_of_sextets :: "int list \<Rightarrow> int list" where
  "bytes_of_sextets (a # b # c # d # rest) =
     [a * 4 + b div 16, (b mod 16) * 16 + c div 4, (c mod 4) * 64 + d]
     @ bytes_of_sextets rest"
| "bytes_of_sextets [a, b, c] = [a * 4 + b div 16, (b mod 16) * 16 + c div 4]"
| "bytes_of_sextets [a, b] = [a * 4 + b div 16]"
| "bytes_of_sextets _ = []"

definition sample_encodeBase64url :: "string \<Rightarrow> string" where
  "sample_encodeBase64url s = map sextet_char (sextets_of_bytes (map of_char s))"

definition sample_decodeBase64url :: "string \<Rightarrow> string" where
  "sample_decodeBase64url s = map char_of (bytes_of_sextets (List.map_filter char_sextet s))"

definition json_quote :: "string \<Rightarrow> string" where
  "json_quote s =
     [CHR 0x22]
     @ concat (map (\<lambda>c. if c = CHR 0x22 \<or> c = CHR 0x5C then [CHR 0x5C, c] else [c]) s)
     @ [CHR 0x22]"

function show_digits :: "int \<Rightarrow> string" where
  "show_digits n =
     (if n < 10 then [char_of (48 + n)]
      else show_digits (n div 10) @ [char_of (48 + n mod 10)])"
  by pat_completeness auto
termination
  by (relation "measure nat") auto

declare show_digits.simps [simp del]

definition show_int :: "int \<Rightarrow> string" where
  "show_int i = (if i < 0 then CHR ''-'' # show_digits (- i) else show_digits i)"

definition sample_jsonStringify :: "JwtPayload \<Rightarrow> string" where
  "sample_jsonStringify p =
     ''{'' @ json_quote ''sub'' @ '':'' @ json_quote (sub p)
     @ '','' @ json_quote ''email'' @ '':'' @ json_quote (email p)
     @ '','' @ json_quote ''role'' @ '':'' @ json_quote (role p)
     @ '','' @ json_quote ''iat'' @ '':'' @ show_int (iat p)
     @ '','' @ json_quote ''exp'' @ '':'' @ show_int (exp p)
     @ '','' @ json_quote ''jti'' @ '':'' @ json_quote (jti p)
     @ ''}''"

definition expect :: "string \<Rightarrow> string \<Rightarrow> string option" where
  "expect lit s = (if take (length lit) s = lit then Some (drop (length lit) s) else None)"

fun read_string_body :: "string \<Rightarrow> (string \<times> string) option" where
  "read_string_body [] = None"
| "read_string_body (c # cs) =
     (if c = CHR 0x22 then Some ([], cs)
      else if c = CHR 0x5C then
        (case cs of
           [] \<Rightarrow> None
         | d # ds \<Rightarrow>
             if d = CHR 0x22 \<or> d = CHR 0x5C
             then map_option (\<lambda>(t, r). (d # t, r)) (read_string_body ds)
             else None)
      else map_option (\<lambda>(t, r). (c # t, r)) (read_string_body cs))"

definition read_string :: "string \<Rightarrow> (string \<times> string) option" where
  "read_string s =
     (case s of
        [] \<Rightarrow> None
      | c # cs \<Rightarrow> if c = CHR 0x22 then read_string_body cs else None)"

definition is_digit :: "char \<Rightarrow> bool" where
  "is_digit c = (48 \<le> (of_char c :: int) \<and> (of_char c :: int) \<le> 57)"

definition read_int :: "string \<Rightarrow> (int \<times> string) option" where
  "read_int s =
     (let neg = (case s of [] \<Rightarrow> False | c # _ \<Rightarrow> c = CHR ''-'');
          r = (if neg then tl s else s);
          ds = takeWhile is_digit r;
          v = foldl (\<lambda>a c. 10 * a + (of_char c - 48)) (0 :: int) ds
      in if ds = [] then None
         else Some (if neg then - v else v, dropWhile is_digit r))"

definition sample_jsonParse :: "string \<Rightarrow> JwtPayload option" where
  "sample_jsonParse s =
     Option.bind (expect (''{'' @ json_quote ''sub'' @ '':'') s) (\<lambda>r.
     Option.bind (read_string r) (\<lambda>(v_sub, r).
     Option.bind (expect ('','' @ json_quote ''email'' @ '':'') r) (\<lambda>r.
     Option.bind (read_string r) (\<lambda>(v_email, r).
     Option.bind (expect ('','' @ json_quote ''role'' @ '':'') r) (\<lambda>r.
     Option.bind (read_string r) (\<lambda>(v_role, r).
     Option.bind (expect ('','' @ json_quote ''iat'' @ '':'') r) (\<lambda>r.
     Option.bind (read_int r) (\<lambda>(v_iat, r).
     Option.bind (expect ('','' @ json_quote ''exp'' @ '':'') r) (\<lambda>r.
     Option.bind (read_int r) (\<lambda>(v_exp, r).
     Option.bind (expect ('','' @ json_quote ''jti'' @ '':'') r) (\<lambda>r.
     Option.bind (read_string r) (\<lambda>(v_jti, r).
       if r = ''}''
       then Some \<lparr>sub = v_sub, email = v_email, role = v_role, iat = v_iat, exp = v_exp,
                  jti = v_jti\<rparr>
       else None))))))))))))"

definition checksum :: "string \<Rightarrow> int" where
  "checksum s = foldl (\<lambda>h c. (h * 31 + of_char c) mod 1000003) 7 s"

definition sample_hmacSha256 :: "string \<Rightarrow> string \<Rightarrow> string" where
  "sample_hmacSha256 secret input = show_digits (checksum (secret @ ''/'' @ input))"

definition sample_scrypt :: "string \<Rightarrow> string \<Rightarrow> nat \<Rightarrow> int \<Rightarrow> exn + Buffer" where
  "sample_scrypt password salt keylen cost =
     Inr (map (\<lambda>i. (checksum (password @ ''/'' @ salt) + 7 * int i) mod 256)
            [0..<keylen])"

definition sample_platform :: platform where
  "sample_platform =
     \<lparr>hmacSha256 = sample_hmacSha256,
      encodeBase64url = sample_encodeBase64url,
      decodeBase64url = sample_decodeBase64url,
      jsonStringify = sample_jsonStringify,
      jsonParse = sample_jsonParse,
      scrypt = sample_scrypt\<rparr>"

section \<open>Notions used in the statements\<close>

text \<open>The payload built by \<open>generateAccessToken\<close> and \<open>generateRefreshToken\<close> for a lifetime \<open>ttl\<close>.\<close>

definition minted_payload ::
  "int \<Rightarrow> int \<Rightarrow> string \<Rightarrow> string \<Rightarrow> string \<Rightarrow> UserRole \<Rightarrow> JwtPayload" where
  "minted_payload now ttl uuid userId mail r =
     \<lparr>sub = userId, email = mail, role = r, iat = now div 1000,
      exp = now div 1000 + ttl, jti = uuid\<rparr>"

text \<open>The text over which \<open>sign\<close> computes the signature: header and body joined by a dot.\<close>

definition signing_input :: "platform \<Rightarrow> JwtPayload \<Rightarrow> string" where
  "signing_input L p =
     base64url L jwt_header_json @ ''.'' @ base64url L (jsonStringify L p)"

text \<open>The platform decodes the encoded body of \<open>p\<close> back to \<open>p\<close>.\<close>

definition decodes_back :: "platform \<Rightarrow> JwtPayload \<Rightarrow> bool" where
  "decodes_back L p \<longleftrightarrow>
     jsonParse L (decodeBase64url L (base64url L (jsonStringify L p))) = Some p"

text \<open>
  The three segments of the token signed for \<open>p\<close> with \<open>secret\<close> contain no dot, as
  base64url text never does.
\<close>

definition dot_free_segments :: "platform \<Rightarrow> JwtPayload \<Rightarrow> string \<Rightarrow> bool" where
  "dot_free_segments L p secret \<longleftrightarrow>
     CHR ''.'' \<notin> set (base64url L jwt_header_json)
     \<and> CHR ''.'' \<notin> set (base64url L (jsonStringify L p))
     \<and> CHR ''.'' \<notin> set (hmacSha256 L secret (signing_input L p))"

section \<open>Sample data\<close>

text \<open>
  A database with an active and a deactivated user, both with the password hash that
  \<open>hashPassword\<close> gives on the sample platform for the password \<open>Abcdef12\<close> and the salt
  bytes 1, 2, 3, and one session holding a refresh token minted at clock value 5000.
\<close>

definition sample_hash :: string where
  "sample_hash =
     ''010203:5d646b727980878e959ca3aab1b8bfc6cdd4dbe2e9f0f7fe050c131a21282f363d444b525960676e757c838a91989fa6adb4bbc2c9d0d7dee5ecf3fa01080f16''"

definition sample_user :: User where
  "sample_user =
     \<lparr>user_id = ''u1'', user_email = ''a@b.com'', username = ''alice'',
      passwordHash = sample_hash, user_role = User, isActive = True, emailVerified = True,
      lastLoginAt = None, createdAt = 0, updatedAt = 0\<rparr>"

definition sample_inactive_user :: User where
  "sample_inactive_user =
     \<lparr>user_id = ''u2'', user_email = ''gone@b.com'', username = ''bob'',
      passwordHash = sample_hash, user_role = User, isActive = False, emailVerified = True,
      lastLoginAt = None, createdAt = 0, updatedAt = 0\<rparr>"

definition sample_refresh_token :: string where
  "sample_refresh_token =
     generateRefreshToken sample_platform default_config 5000 ''j2'' ''u1'' ''a@b.com'' User"

definition sample_state :: state where
  "sample_state =
     \<lparr>connected = True,
      users = [sample_user, sample_inactive_user],
      sessions =
        [\<lparr>session_id = ''s1'', session_userId = ''u1'',
          session_refreshToken = sample_refresh_token, session_userAgent = ''agent'',
          session_ipAddress = ''10.0.0.1'', expiresAt = 905000, session_createdAt = 5000\<rparr>],
      audit_logs = [],
      comparePassword_calls = []\<rparr>"

section \<open>Permission table\<close>

lemma role_names_distinct:
  "distinct [Guest, User, Moderator, Admin]"
  by (simp add: Guest_def User_def Moderator_def Admin_def)

lemma hasPermission_lookup:
  "hasPermission r p \<longleftrightarrow> (\<exists>ps. map_of RolePermissions r = Some ps \<and> p \<in> set ps)"
  by (simp add: hasPermission_def split: option.splits)

lemma hasPermission_cases:
  "hasPermission r p \<longleftrightarrow>
        r = Guest \<and> p = ReadOwnProfile
      \<or> r = User \<and> p \<in> {ReadOwnProfile, UpdateOwnProfile, DeleteOwnAccount}
      \<or> r = Moderator \<and> p \<in> {ReadOwnProfile, UpdateOwnProfile, DeleteOwnAccount,
                                 ReadAnyProfile, ListUsers, ViewAuditLog}
      \<or> r = Admin \<and> p \<in> set Permission_values"
  using role_names_distinct
  by (auto simp: hasPermission_def RolePermissions_def)

lemma User_lacks_ListUsers: "\<not> hasPermission User ListUsers"
  unfolding hasPermission_cases
  by (simp add: Guest_def User_def Moderator_def Admin_def ListUsers_def
      ReadOwnProfile_def UpdateOwnProfile_def DeleteOwnAccount_def)

lemma Moderator_has_ListUsers: "hasPermission Moderator ListUsers"
  unfolding hasPermission_cases by simp

text \<open>
  C7. \<open>hasPermission r p\<close> holds exactly when \<open>p\<close> is in the list authored for \<open>r\<close>:
  the one-element list for Guest, the three-element list for User, the six-element list
  for Moderator, all nine members for Admin, and nothing for any other role. Nothing is
  inherited: User lacks ListUsers, which Moderator has. A role without an entry has no
  permission.
\<close>

theorem hasPermission_authored_table:
  "(hasPermission r p \<longleftrightarrow> (\<exists>ps. map_of RolePermissions r = Some ps \<and> p \<in> set ps))
   \<and> (hasPermission r p \<longleftrightarrow>
        r = Guest \<and> p = ReadOwnProfile
      \<or> r = User \<and> p \<in> {ReadOwnProfile, UpdateOwnProfile, DeleteOwnAccount}
      \<or> r = Moderator \<and> p \<in> {ReadOwnProfile, UpdateOwnProfile, DeleteOwnAccount,
                                 ReadAnyProfile, ListUsers, ViewAuditLog}
      \<or> r = Admin \<and> p \<in> set Permission_values)
   \<and> \<not> hasPermission User ListUsers
   \<and> hasPermission Moderator ListUsers
   \<and> (map_of RolePermissions r = None \<longrightarrow> \<not> hasPermission r p)"
proof -
  have unknown: "map_of RolePermissions r = None \<longrightarrow> \<not> hasPermission r p"
    by (simp add: hasPermission_def)
  from hasPermission_lookup [of r p] hasPermission_cases [of r p]
    User_lacks_ListUsers Moderator_has_ListUsers unknown
  show ?thesis by blast
qed

theorem hasPermission_authored_table_witness:
  "map_of RolePermissions ''superuser'' = None \<and> \<not> hasPermission ''superuser'' ReadOwnProfile"
proof -
  have none: "map_of RolePermissions ''superuser'' = None"
    by (simp add: RolePermissions_def Guest_def User_def Moderator_def Admin_def)
  from hasPermission_authored_table [of "''superuser''" ReadOwnProfile] none
  show ?thesis by blast
qed

section \<open>Role gate\<close>

text \<open>
  C9. For a request that carries an authenticated payload with role \<open>R\<close>, \<open>requireRole S\<close>
  calls \<open>next\<close> exactly when \<open>R\<close> is one of the roles \<open>S\<close>; otherwise it answers 403
  "Forbidden" and \<open>next\<close> is not called.
\<close>

theorem requireRole_allows_iff_member:
  assumes "user req = Some p"
  shows "(requireRole S req = Next \<longleftrightarrow> role p \<in> set S)
       \<and> (role p \<notin> set S \<longrightarrow>
            requireRole S req =
              Reply 403 \<lparr>success = False, data = None, error = Some ''Forbidden'',
                         message = None, statusCode = 403\<rparr>)"
  using assms by (simp add: requireRole_def failure_def)

theorem requireRole_allows_iff_member_witness:
  "user \<lparr>headers = Map.empty,
         user = Some \<lparr>sub = ''u1'', email = ''a@b.com'', role = User, iat = 0, exp = 900,
                      jti = ''j1''\<rparr>,
         ip = None\<rparr>
     = Some \<lparr>sub = ''u1'', email = ''a@b.com'', role = User, iat = 0, exp = 900, jti = ''j1''\<rparr>
   \<and> requireRole [Admin, Moderator]
        \<lparr>headers = Map.empty,
         user = Some \<lparr>sub = ''u1'', email = ''a@b.com'', role = User, iat = 0, exp = 900,
                      jti = ''j1''\<rparr>,
         ip = None\<rparr>
     = Reply 403 \<lparr>success = False, data = None, error = Some ''Forbidden'',
                  message = None, statusCode = 403\<rparr>
   \<and> requireRole [Admin, User]
        \<lparr>headers = Map.empty,
         user = Some \<lparr>sub = ''u1'', email = ''a@b.com'', role = User, iat = 0, exp = 900,
                      jti = ''j1''\<rparr>,
         ip = None\<rparr>
     = Next"
proof -
  let ?p = "\<lparr>sub = ''u1'', email = ''a@b.com'', role = User, iat = 0, exp = 900, jti = ''j1''\<rparr>"
  let ?req = "\<lparr>headers = Map.empty, user = Some ?p, ip = None\<rparr>"
  have u: "user ?req = Some ?p" by simp
  have out: "role ?p \<notin> set [Admin, Moderator]"
    by (simp add: Admin_def Moderator_def User_def)
  have inn: "role ?p \<in> set [Admin, User]" by simp
  from requireRole_allows_iff_member [OF u, of "[Admin, Moderator]"] out
    requireRole_allows_iff_member [OF u, of "[Admin, User]"] inn u
  show ?thesis by blast
qed

section \<open>Rate limiter\<close>

lemma rateLimitAuth_fresh:
  assumes "rateLimitKey req = k"
    and "store k = None \<or> (\<exists>e. store k = Some e \<and> resetAt e \<le> now)"
  shows "rateLimitAuth m w req now store
           = (Next, store(k \<mapsto> \<lparr>count = 1, resetAt = now + w\<rparr>))"
  using assms by (auto simp: rateLimitAuth_def)

lemma rateLimitAuth_blocked:
  assumes "rateLimitKey req = k" and "store k = Some e" and "now < resetAt e" and "m \<le> count e"
  shows "rateLimitAuth m w req now store
           = (Reply 429 \<lparr>success = False, data = None,
                          error = Some ''Too many attempts. Try again later.'',
                          message = None, statusCode = 429\<rparr>, store)"
  using assms by (simp add: rateLimitAuth_def failure_def)

lemma rateLimitAuth_counted:
  assumes "rateLimitKey req = k" and "store k = Some e" and "now < resetAt e" and "count e < m"
  shows "rateLimitAuth m w req now store = (Next, store(k \<mapsto> e\<lparr>count := count e + 1\<rparr>))"
  using assms by (simp add: rateLimitAuth_def)

lemma rateLimitAuth_three_then_blocked:
  assumes keys: "rateLimitKey q1 = k" "rateLimitKey q2 = k" "rateLimitKey q3 = k"
      "rateLimitKey q4 = k" "rateLimitKey q5 = k"
    and start: "store k = None"
    and times: "t2 < t1 + w" "t3 < t1 + w" "t4 < t1 + w" "t1 + w \<le> t5"
  shows "(let (r1, s1) = rateLimitAuth 3 w q1 t1 store;
              (r2, s2) = rateLimitAuth 3 w q2 t2 s1;
              (r3, s3) = rateLimitAuth 3 w q3 t3 s2;
              (r4, s4) = rateLimitAuth 3 w q4 t4 s3;
              (r5, s5) = rateLimitAuth 3 w q5 t5 s4
          in r1 = Next \<and> r2 = Next \<and> r3 = Next
           \<and> r4 = Reply 429 \<lparr>success = False, data = None,
                               error = Some ''Too many attempts. Try again later.'',
                               message = None, statusCode = 429\<rparr>
           \<and> s4 = s3 \<and> s3 k = Some \<lparr>count = 3, resetAt = t1 + w\<rparr>
           \<and> r5 = Next \<and> s5 k = Some \<lparr>count = 1, resetAt = t5 + w\<rparr>)"
proof -
  let ?e = "\<lambda>n. \<lparr>count = n, resetAt = t1 + w\<rparr>"
  let ?s1 = "store(k \<mapsto> ?e 1)"
  let ?s2 = "?s1(k \<mapsto> ?e 2)"
  let ?s3 = "?s2(k \<mapsto> ?e 3)"
  have c1: "rateLimitAuth 3 w q1 t1 store = (Next, ?s1)"
    using rateLimitAuth_fresh [OF keys(1), of store t1 3 w] start by simp
  have c2: "rateLimitAuth 3 w q2 t2 ?s1 = (Next, ?s2)"
    using rateLimitAuth_counted [OF keys(2), of ?s1 "?e 1" t2 3 w] times(1) by simp
  have c3: "rateLimitAuth 3 w q3 t3 ?s2 = (Next, ?s3)"
    using rateLimitAuth_counted [OF keys(3), of ?s2 "?e 2" t3 3 w] times(2) by simp
  have c4: "rateLimitAuth 3 w q4 t4 ?s3
              = (Reply 429 \<lparr>success = False, data = None,
                             error = Some ''Too many attempts. Try again later.'',
                             message = None, statusCode = 429\<rparr>, ?s3)"
    using rateLimitAuth_blocked [OF keys(4), of ?s3 "?e 3" t4 3 w] times(3) by simp
  have c5: "rateLimitAuth 3 w q5 t5 ?s3 = (Next, ?s3(k \<mapsto> \<lparr>count = 1, resetAt = t5 + w\<rparr>))"
    using rateLimitAuth_fresh [OF keys(5), of ?s3 t5 3 w] times(4) by simp
  show ?thesis
    by (simp only: c1 c2 c3 c4 c5 Let_def prod.case) simp
qed

text \<open>
  C6. A check for a key with no entry, or whose entry's reset time is not after the
  clock, stores count 1 with reset time \<open>now + windowMs\<close> and allows. Within the window
  (reset time after the clock), a count of at least \<open>maxAttempts\<close> blocks with 429 and
  leaves the store as it is; a smaller count is incremented and the call allowed.
  Hence with \<open>maxAttempts = 3\<close>, from a store without an entry for the key, three calls
  within the window are allowed, the fourth is blocked, and a call once the window has
  elapsed is allowed and leaves count 1.
\<close>

theorem rateLimitAuth_window_counter:
  "(rateLimitKey req = k \<longrightarrow>
      (store k = None \<or> (\<exists>e. store k = Some e \<and> resetAt e \<le> now) \<longrightarrow>
         rateLimitAuth m w req now store
           = (Next, store(k \<mapsto> \<lparr>count = 1, resetAt = now + w\<rparr>)))
    \<and> (\<forall>e. store k = Some e \<and> now < resetAt e \<and> m \<le> count e \<longrightarrow>
         rateLimitAuth m w req now store
           = (Reply 429 \<lparr>success = False, data = None,
                          error = Some ''Too many attempts. Try again later.'',
                          message = None, statusCode = 429\<rparr>, store))
    \<and> (\<forall>e. store k = Some e \<and> now < resetAt e \<and> count e < m \<longrightarrow>
         rateLimitAuth m w req now store
           = (Next, store(k \<mapsto> e\<lparr>count := count e + 1\<rparr>))))
   \<and> (rateLimitKey q1 = k \<and> rateLimitKey q2 = k \<and> rateLimitKey q3 = k
      \<and> rateLimitKey q4 = k \<and> rateLimitKey q5 = k
      \<and> store k = None \<and> t2 < t1 + w \<and> t3 < t1 + w \<and> t4 < t1 + w \<and> t1 + w \<le> t5 \<longrightarrow>
        (let (r1, s1) = rateLimitAuth 3 w q1 t1 store;
             (r2, s2) = rateLimitAuth 3 w q2 t2 s1;
             (r3, s3) = rateLimitAuth 3 w q3 t3 s2;
             (r4, s4) = rateLimitAuth 3 w q4 t4 s3;
             (r5, s5) = rateLimitAuth 3 w q5 t5 s4
         in r1 = Next \<and> r2 = Next \<and> r3 = Next
          \<and> r4 = Reply 429 \<lparr>success = False, data = None,
                              error = Some ''Too many attempts. Try again later.'',
                              message = None, statusCode = 429\<rparr>
          \<and> s4 = s3 \<and> s3 k = Some \<lparr>count = 3, resetAt = t1 + w\<rparr>
          \<and> r5 = Next \<and> s5 k = Some \<lparr>count = 1, resetAt = t5 + w\<rparr>))"
proof (intro conjI impI allI)
  assume "rateLimitKey req = k"
    and "store k = None \<or> (\<exists>e. store k = Some e \<and> resetAt e \<le> now)"
  then show "rateLimitAuth m w req now store
           = (Next, store(k \<mapsto> \<lparr>count = 1, resetAt = now + w\<rparr>))"
    by (rule rateLimitAuth_fresh)
next
  fix e
  assume "rateLimitKey req = k" and "store k = Some e \<and> now < resetAt e \<and> m \<le> count e"
  then show "rateLimitAuth m w req now store
           = (Reply 429 \<lparr>success = False, data = None,
                          error = Some ''Too many attempts. Try again later.'',
                          message = None, statusCode = 429\<rparr>, store)"
    by (simp add: rateLimitAuth_blocked)
next
  fix e
  assume "rateLimitKey req = k" and "store k = Some e \<and> now < resetAt e \<and> count e < m"
  then show "rateLimitAuth m w req now store = (Next, store(k \<mapsto> e\<lparr>count := count e + 1\<rparr>))"
    by (simp add: rateLimitAuth_counted)
next
  assume "rateLimitKey q1 = k \<and> rateLimitKey q2 = k \<and> rateLimitKey q3 = k
      \<and> rateLimitKey q4 = k \<and> rateLimitKey q5 = k
      \<and> store k = None \<and> t2 < t1 + w \<and> t3 < t1 + w \<and> t4 < t1 + w \<and> t1 + w \<le> t5"
  then show "(let (r1, s1) = rateLimitAuth 3 w q1 t1 store;
             (r2, s2) = rateLimitAuth 3 w q2 t2 s1;
             (r3, s3) = rateLimitAuth 3 w q3 t3 s2;
             (r4, s4) = rateLimitAuth 3 w q4 t4 s3;
             (r5, s5) = rateLimitAuth 3 w q5 t5 s4
         in r1 = Next \<and> r2 = Next \<and> r3 = Next
          \<and> r4 = Reply 429 \<lparr>success = False, data = None,
                              error = Some ''Too many attempts. Try again later.'',
                              message = None, statusCode = 429\<rparr>
          \<and> s4 = s3 \<and> s3 k = Some \<lparr>count = 3, resetAt = t1 + w\<rparr>
          \<and> r5 = Next \<and> s5 k = Some \<lparr>count = 1, resetAt = t5 + w\<rparr>)"
    using rateLimitAuth_three_then_blocked [of q1 k q2 q3 q4 q5 store t2 t1 w t3 t4 t5]
    by blast
qed

theorem rateLimitAuth_window_counter_witness:
  "rateLimitAuth 3 1000 \<lparr>headers = Map.empty, user = None, ip = Some ''10.0.0.1''\<rparr> 0 Map.empty
     = (Next, [''10.0.0.1'' \<mapsto> \<lparr>count = 1, resetAt = 1000\<rparr>])
   \<and> rateLimitAuth 3 1000 \<lparr>headers = Map.empty, user = None, ip = Some ''10.0.0.1''\<rparr> 2000
        [''10.0.0.1'' \<mapsto> \<lparr>count = 3, resetAt = 1000\<rparr>]
     = (Next, [''10.0.0.1'' \<mapsto> \<lparr>count = 1, resetAt = 3000\<rparr>])
   \<and> rateLimitAuth 3 1000 \<lparr>headers = Map.empty, user = None, ip = Some ''10.0.0.1''\<rparr> 30
        [''10.0.0.1'' \<mapsto> \<lparr>count = 3, resetAt = 1000\<rparr>]
     = (Reply 429 \<lparr>success = False, data = None,
                    error = Some ''Too many attempts. Try again later.'',
                    message = None, statusCode = 429\<rparr>,
        [''10.0.0.1'' \<mapsto> \<lparr>count = 3, resetAt = 1000\<rparr>])
   \<and> rateLimitAuth 3 1000 \<lparr>headers = Map.empty, user = None, ip = Some ''10.0.0.1''\<rparr> 10
        [''10.0.0.1'' \<mapsto> \<lparr>count = 1, resetAt = 1000\<rparr>]
     = (Next, [''10.0.0.1'' \<mapsto> \<lparr>count = 2, resetAt = 1000\<rparr>])
   \<and> (let q = \<lparr>headers = Map.empty, user = None, ip = Some ''10.0.0.1''\<rparr>;
           (r1, s1) = rateLimitAuth 3 1000 q 0 Map.empty;
           (r2, s2) = rateLimitAuth 3 1000 q 10 s1;
           (r3, s3) = rateLimitAuth 3 1000 q 20 s2;
           (r4, s4) = rateLimitAuth 3 1000 q 30 s3;
           (r5, s5) = rateLimitAuth 3 1000 q 1000 s4
       in r1 = Next \<and> r2 = Next \<and> r3 = Next
        \<and> r4 = Reply 429 \<lparr>success = False, data = None,
                            error = Some ''Too many attempts. Try again later.'',
                            message = None, statusCode = 429\<rparr>
        \<and> s4 = s3 \<and> s3 ''10.0.0.1'' = Some \<lparr>count = 3, resetAt = 1000\<rparr>
        \<and> r5 = Next \<and> s5 ''10.0.0.1'' = Some \<lparr>count = 1, resetAt = 2000\<rparr>)"
proof -
  let ?q = "\<lparr>headers = Map.empty, user = None, ip = Some ''10.0.0.1''\<rparr>"
  let ?k = "''10.0.0.1''"
  have key: "rateLimitKey ?q = ?k" by (simp add: rateLimitKey_def)
  have a: "rateLimitAuth 3 1000 ?q 0 Map.empty
             = (Next, [?k \<mapsto> \<lparr>count = 1, resetAt = 1000\<rparr>])"
    using rateLimitAuth_window_counter
      [where req = ?q and k = ?k and store = Map.empty and now = 0 and m = 3 and w = 1000] key
    by simp
  have b: "rateLimitAuth 3 1000 ?q 2000 [?k \<mapsto> \<lparr>count = 3, resetAt = 1000\<rparr>]
             = (Next, [?k \<mapsto> \<lparr>count = 1, resetAt = 3000\<rparr>])"
    using rateLimitAuth_window_counter
      [where req = ?q and k = ?k and store = "[?k \<mapsto> \<lparr>count = 3, resetAt = 1000\<rparr>]"
         and now = 2000 and m = 3 and w = 1000] key
    by simp
  have c: "rateLimitAuth 3 1000 ?q 30 [?k \<mapsto> \<lparr>count = 3, resetAt = 1000\<rparr>]
             = (Reply 429 \<lparr>success = False, data = None,
                            error = Some ''Too many attempts. Try again later.'',
                            message = None, statusCode = 429\<rparr>,
                [?k \<mapsto> \<lparr>count = 3, resetAt = 1000\<rparr>])"
    using rateLimitAuth_window_counter
      [where req = ?q and k = ?k and store = "[?k \<mapsto> \<lparr>count = 3, resetAt = 1000\<rparr>]"
         and now = 30 and m = 3 and w = 1000] key
    by simp
  have d: "rateLimitAuth 3 1000 ?q 10 [?k \<mapsto> \<lparr>count = 1, resetAt = 1000\<rparr>]
             = (Next, [?k \<mapsto> \<lparr>count = 2, resetAt = 1000\<rparr>])"
    using rateLimitAuth_window_counter
      [where req = ?q and k = ?k and store = "[?k \<mapsto> \<lparr>count = 1, resetAt = 1000\<rparr>]"
         and now = 10 and m = 3 and w = 1000] key
    by simp
  have e: "(let (r1, s1) = rateLimitAuth 3 1000 ?q 0 Map.empty;
           (r2, s2) = rateLimitAuth 3 1000 ?q 10 s1;
           (r3, s3) = rateLimitAuth 3 1000 ?q 20 s2;
           (r4, s4) = rateLimitAuth 3 1000 ?q 30 s3;
           (r5, s5) = rateLimitAuth 3 1000 ?q 1000 s4
       in r1 = Next \<and> r2 = Next \<and> r3 = Next
        \<and> r4 = Reply 429 \<lparr>success = False, data = None,
                            error = Some ''Too many attempts. Try again later.'',
                            message = None, statusCode = 429\<rparr>
        \<and> s4 = s3 \<and> s3 ?k = Some \<lparr>count = 3, resetAt = 1000\<rparr>
        \<and> r5 = Next \<and> s5 ?k = Some \<lparr>count = 1, resetAt = 2000\<rparr>)"
  proof -
    have h: "rateLimitKey ?q = ?k \<and> rateLimitKey ?q = ?k \<and> rateLimitKey ?q = ?k
      \<and> rateLimitKey ?q = ?k \<and> rateLimitKey ?q = ?k
      \<and> Map.empty ?k = (None :: RateLimitEntry option)
      \<and> (10::int) < 0 + 1000 \<and> (20::int) < 0 + 1000 \<and> (30::int) < 0 + 1000
      \<and> (0::int) + 1000 \<le> 1000"
      using key by simp
    from rateLimitAuth_window_counter
      [where ?q1.0 = ?q and ?q2.0 = ?q and ?q3.0 = ?q and ?q4.0 = ?q and ?q5.0 = ?q and k = ?k
         and store = Map.empty and w = 1000 and ?t1.0 = 0 and ?t2.0 = 10 and ?t3.0 = 20
         and ?t4.0 = 30 and ?t5.0 = 1000, THEN conjunct2, THEN mp, OF h]
    show ?thesis by simp
  qed
  from a b c d e show ?thesis unfolding Let_def by blast
qed

section \<open>Splitting and token structure\<close>

lemma str_split_not_Nil: "str_split c s \<noteq> []"
  by (induction s) (auto split: list.splits)

lemma str_split_no_sep: "c \<notin> set s \<Longrightarrow> str_split c s = [s]"
  by (induction s) auto

lemma str_split_append: "str_split c (a @ c # b) = str_split c a @ str_split c b"
proof (induction a)
  case Nil
  show ?case by simp
next
  case (Cons x a)
  then show ?case
    using str_split_not_Nil [of c a]
    by (cases "str_split c a") (auto split: list.splits)
qed

lemma str_split_single: "length (str_split c s) = 1 \<Longrightarrow> c \<notin> set s"
proof (induction s)
  case Nil
  show ?case by simp
next
  case (Cons x s)
  then show ?case
    using str_split_not_Nil [of c s]
    by (auto split: if_splits list.splits)
qed

lemma str_split_three_length:
  assumes "length (str_split c (a @ c # b @ c # d)) = 3"
  shows "c \<notin> set a \<and> c \<notin> set b \<and> c \<notin> set d"
proof -
  have pos: "length (str_split c a) \<ge> 1" "length (str_split c b) \<ge> 1" "length (str_split c d) \<ge> 1"
    using str_split_not_Nil [of c a] str_split_not_Nil [of c b] str_split_not_Nil [of c d]
    by (simp_all add: Suc_le_eq)
  from assms have "length (str_split c a) + length (str_split c b) + length (str_split c d) = 3"
    by (simp add: str_split_append)
  with pos have "length (str_split c a) = 1" "length (str_split c b) = 1" "length (str_split c d) = 1"
    by linarith+
  then show ?thesis by (simp add: str_split_single)
qed

lemma sign_parts:
  "sign L p secret =
     base64url L jwt_header_json @ CHR ''.'' # base64url L (jsonStringify L p)
       @ CHR ''.'' # hmacSha256 L secret (signing_input L p)"
  by (simp add: sign_def signing_input_def Let_def)

lemma verifyToken_sign:
  "verifyToken L cfg now (sign L p secret) isRefresh =
     (if dot_free_segments L p secret
         \<and> hmacSha256 L (if isRefresh then JWT_SECRET cfg @ ''_refresh'' else JWT_SECRET cfg)
              (signing_input L p)
           = hmacSha256 L secret (signing_input L p)
      then (case jsonParse L (decodeBase64url L (base64url L (jsonStringify L p))) of
              None \<Rightarrow> None
            | Some q \<Rightarrow> if exp q < now div 1000 then None else Some q)
      else None)"
proof (cases "dot_free_segments L p secret")
  case True
  then have "str_split CHR ''.'' (sign L p secret) =
     [base64url L jwt_header_json, base64url L (jsonStringify L p),
      hmacSha256 L secret (signing_input L p)]"
    unfolding sign_parts dot_free_segments_def
    by (simp add: str_split_append str_split_no_sep)
  with True show ?thesis
    by (simp add: verifyToken_def Let_def signing_input_def)
next
  case False
  have "length (str_split CHR ''.'' (sign L p secret)) \<noteq> 3"
  proof
    assume "length (str_split CHR ''.'' (sign L p secret)) = 3"
    then have "dot_free_segments L p secret"
      unfolding sign_parts dot_free_segments_def by (rule str_split_three_length)
    with False show False by simp
  qed
  then have "verifyToken L cfg now (sign L p secret) isRefresh = None"
    by (auto simp: verifyToken_def split: list.splits)
  with False show ?thesis by simp
qed

section \<open>Minting and verifying tokens\<close>

lemma generateAccessToken_sign:
  "generateAccessToken L cfg now uuid userId mail r =
     sign L (minted_payload now (JWT_EXPIRY cfg) uuid userId mail r) (JWT_SECRET cfg)"
  by (simp add: generateAccessToken_def minted_payload_def)

lemma generateRefreshToken_sign:
  "generateRefreshToken L cfg now uuid userId mail r =
     sign L (minted_payload now (REFRESH_EXPIRY cfg) uuid userId mail r)
       (JWT_SECRET cfg @ ''_refresh'')"
  by (simp add: generateRefreshToken_def minted_payload_def)

text \<open>
  C3. A token minted by \<open>generateAccessToken\<close> is rejected by \<open>verifyToken\<close> with
  \<open>isRefresh = true\<close>, and a token minted by \<open>generateRefreshToken\<close> is rejected with
  \<open>isRefresh = false\<close>, at any clock value. The two secrets always differ (the refresh
  secret is the access secret followed by \<open>_refresh\<close>); the rejection rests on the
  keyed hash giving different signatures under the two secrets for the signed text,
  which is the assumption of each kind.
\<close>

theorem token_kinds_do_not_cross:
  assumes "hmacSha256 L (JWT_SECRET cfg @ ''_refresh'')
             (signing_input L (minted_payload now (JWT_EXPIRY cfg) uuidA userId mail r))
           \<noteq> hmacSha256 L (JWT_SECRET cfg)
               (signing_input L (minted_payload now (JWT_EXPIRY cfg) uuidA userId mail r))"
    and "hmacSha256 L (JWT_SECRET cfg)
             (signing_input L (minted_payload now (REFRESH_EXPIRY cfg) uuidR userId mail r))
           \<noteq> hmacSha256 L (JWT_SECRET cfg @ ''_refresh'')
               (signing_input L (minted_payload now (REFRESH_EXPIRY cfg) uuidR userId mail r))"
  shows "verifyToken L cfg now' (generateAccessToken L cfg now uuidA userId mail r) True = None
       \<and> verifyToken L cfg now' (generateRefreshToken L cfg now uuidR userId mail r) False = None
       \<and> JWT_SECRET cfg @ ''_refresh'' \<noteq> JWT_SECRET cfg"
  using assms
  by (simp add: generateAccessToken_sign generateRefreshToken_sign verifyToken_sign)

theorem token_kinds_do_not_cross_witness:
  "verifyToken sample_platform default_config 6000
     (generateAccessToken sample_platform default_config 5000 ''j1'' ''u1'' ''a@b.com'' User) True
     = None
   \<and> verifyToken sample_platform default_config 6000
       (generateRefreshToken sample_platform default_config 5000 ''j2'' ''u1'' ''a@b.com'' User)
       False
     = None
   \<and> verifyToken sample_platform default_config 6000
       (generateAccessToken sample_platform default_config 5000 ''j1'' ''u1'' ''a@b.com'' User)
       False
     \<noteq> None
   \<and> verifyToken sample_platform default_config 6000
       (generateRefreshToken sample_platform default_config 5000 ''j2'' ''u1'' ''a@b.com'' User)
       True
     \<noteq> None"
proof -
  have a: "hmacSha256 sample_platform (JWT_SECRET default_config @ ''_refresh'')
             (signing_input sample_platform
                (minted_payload 5000 (JWT_EXPIRY default_config) ''j1'' ''u1'' ''a@b.com'' User))
           \<noteq> hmacSha256 sample_platform (JWT_SECRET default_config)
               (signing_input sample_platform
                  (minted_payload 5000 (JWT_EXPIRY default_config) ''j1'' ''u1'' ''a@b.com'' User))"
    by code_simp
  have b: "hmacSha256 sample_platform (JWT_SECRET default_config)
             (signing_input sample_platform
                (minted_payload 5000 (REFRESH_EXPIRY default_config) ''j2'' ''u1'' ''a@b.com'' User))
           \<noteq> hmacSha256 sample_platform (JWT_SECRET default_config @ ''_refresh'')
               (signing_input sample_platform
                  (minted_payload 5000 (REFRESH_EXPIRY default_config) ''j2'' ''u1'' ''a@b.com'' User))"
    by code_simp
  have c: "verifyToken sample_platform default_config 6000
       (generateAccessToken sample_platform default_config 5000 ''j1'' ''u1'' ''a@b.com'' User)
       False \<noteq> None"
    by code_simp
  have d: "verifyToken sample_platform default_config 6000
       (generateRefreshToken sample_platform default_config 5000 ''j2'' ''u1'' ''a@b.com'' User)
       True \<noteq> None"
    by code_simp
  from token_kinds_do_not_cross [OF a b, of 6000] c d show ?thesis by blast
qed

lemma verifyToken_minted:
  assumes "decodes_back L p" and "dot_free_segments L p secret"
    and "secret = (if isRefresh then JWT_SECRET cfg @ ''_refresh'' else JWT_SECRET cfg)"
  shows "verifyToken L cfg now' (sign L p secret) isRefresh
           = (if exp p < now' div 1000 then None else Some p)"
  using assms by (simp add: verifyToken_sign decodes_back_def)

lemma past_exp_in_milliseconds:
  "(e < n div 1000) = ((e + 1) * 1000 \<le> (n :: int))"
proof -
  have split: "n = 1000 * (n div 1000) + n mod 1000" by simp
  have lo: "0 \<le> n mod 1000" and hi: "n mod 1000 < 1000" by simp_all
  show ?thesis
  proof
    assume "e < n div 1000"
    then have "(e + 1) * 1000 \<le> 1000 * (n div 1000)" by simp
    with split lo show "(e + 1) * 1000 \<le> n" by linarith
  next
    assume "(e + 1) * 1000 \<le> n"
    with split hi have "(e + 1) * 1000 < 1000 * (n div 1000) + 1000" by linarith
    then show "e < n div 1000" by simp
  qed
qed

text \<open>
  C5, as stated, fails: the clock is \<open>Date.now()\<close> in milliseconds and \<open>verifyToken\<close>
  compares \<open>exp\<close> with its whole seconds. The access token minted at clock value 5000
  has \<open>exp\<close> = 905 s; at clock value 905001, one millisecond past \<open>exp\<close>, it still
  verifies.
\<close>

theorem verify_past_exp_counterexample:
  "(905 :: int) * 1000 < 905001
   \<and> verifyToken sample_platform default_config 905001
       (generateAccessToken sample_platform default_config 5000 ''j1'' ''u1'' ''a@b.com'' User)
       False
     = Some \<lparr>sub = ''u1'', email = ''a@b.com'', role = User, iat = 5, exp = 905,
              jti = ''j1''\<rparr>"
proof -
  have "verifyToken sample_platform default_config 905001
       (generateAccessToken sample_platform default_config 5000 ''j1'' ''u1'' ''a@b.com'' User)
       False
     = Some \<lparr>sub = ''u1'', email = ''a@b.com'', role = User, iat = 5, exp = 905,
              jti = ''j1''\<rparr>"
    by code_simp
  then show ?thesis by simp
qed

text \<open>
  C5, amended. With non-negative lifetimes, on a platform that decodes the encoded
  payload back and produces dot-free segments for it, verifying a token of either kind
  at the clock value of its minting, under the matching kind, returns the minted payload
  (subject, email, role, \<open>iat\<close>, \<open>exp\<close> and \<open>jti\<close> as minted). At every clock value from
  \<open>(exp + 1) * 1000\<close> milliseconds on, one full second past \<open>exp\<close>, verification returns
  nothing; at every clock value before that it returns the minted payload.
\<close>

theorem verify_after_mint:
  assumes "0 \<le> JWT_EXPIRY cfg" and "0 \<le> REFRESH_EXPIRY cfg"
    and "decodes_back L (minted_payload now (JWT_EXPIRY cfg) uuidA userId mail r)"
    and "dot_free_segments L (minted_payload now (JWT_EXPIRY cfg) uuidA userId mail r)
           (JWT_SECRET cfg)"
    and "decodes_back L (minted_payload now (REFRESH_EXPIRY cfg) uuidR userId mail r)"
    and "dot_free_segments L (minted_payload now (REFRESH_EXPIRY cfg) uuidR userId mail r)
           (JWT_SECRET cfg @ ''_refresh'')"
  shows "verifyToken L cfg now (generateAccessToken L cfg now uuidA userId mail r) False
           = Some \<lparr>sub = userId, email = mail, role = r, iat = now div 1000,
                    exp = now div 1000 + JWT_EXPIRY cfg, jti = uuidA\<rparr>
       \<and> verifyToken L cfg now (generateRefreshToken L cfg now uuidR userId mail r) True
           = Some \<lparr>sub = userId, email = mail, role = r, iat = now div 1000,
                    exp = now div 1000 + REFRESH_EXPIRY cfg, jti = uuidR\<rparr>
       \<and> (\<forall>now'. (now div 1000 + JWT_EXPIRY cfg + 1) * 1000 \<le> now' \<longrightarrow>
             verifyToken L cfg now' (generateAccessToken L cfg now uuidA userId mail r) False
               = None)
       \<and> (\<forall>now'. (now div 1000 + REFRESH_EXPIRY cfg + 1) * 1000 \<le> now' \<longrightarrow>
             verifyToken L cfg now' (generateRefreshToken L cfg now uuidR userId mail r) True
               = None)
       \<and> (\<forall>now'. now' < (now div 1000 + JWT_EXPIRY cfg + 1) * 1000 \<longrightarrow>
             verifyToken L cfg now' (generateAccessToken L cfg now uuidA userId mail r) False
               = Some \<lparr>sub = userId, email = mail, role = r, iat = now div 1000,
                        exp = now div 1000 + JWT_EXPIRY cfg, jti = uuidA\<rparr>)
       \<and> (\<forall>now'. now' < (now div 1000 + REFRESH_EXPIRY cfg + 1) * 1000 \<longrightarrow>
             verifyToken L cfg now' (generateRefreshToken L cfg now uuidR userId mail r) True
               = Some \<lparr>sub = userId, email = mail, role = r, iat = now div 1000,
                        exp = now div 1000 + REFRESH_EXPIRY cfg, jti = uuidR\<rparr>)"
proof -
  let ?pa = "minted_payload now (JWT_EXPIRY cfg) uuidA userId mail r"
  let ?pr = "minted_payload now (REFRESH_EXPIRY cfg) uuidR userId mail r"
  let ?ea = "now div 1000 + JWT_EXPIRY cfg"
  let ?er = "now div 1000 + REFRESH_EXPIRY cfg"
  have pa: "?pa = \<lparr>sub = userId, email = mail, role = r, iat = now div 1000,
                    exp = ?ea, jti = uuidA\<rparr>"
    by (simp add: minted_payload_def)
  have pr: "?pr = \<lparr>sub = userId, email = mail, role = r, iat = now div 1000,
                    exp = ?er, jti = uuidR\<rparr>"
    by (simp add: minted_payload_def)
  have ea: "exp ?pa = ?ea" and er: "exp ?pr = ?er"
    by (simp_all add: minted_payload_def)
  have a0: "verifyToken L cfg t (generateAccessToken L cfg now uuidA userId mail r) False
             = (if exp ?pa < t div 1000 then None else Some ?pa)" for t
    unfolding generateAccessToken_sign
    using assms(3,4) by (simp add: verifyToken_minted)
  have b0: "verifyToken L cfg t (generateRefreshToken L cfg now uuidR userId mail r) True
             = (if exp ?pr < t div 1000 then None else Some ?pr)" for t
    unfolding generateRefreshToken_sign
    using assms(5,6) by (simp add: verifyToken_minted)
  have a: "verifyToken L cfg t (generateAccessToken L cfg now uuidA userId mail r) False
             = (if (?ea + 1) * 1000 \<le> t then None else Some ?pa)" for t
    by (simp only: a0 ea past_exp_in_milliseconds)
  have b: "verifyToken L cfg t (generateRefreshToken L cfg now uuidR userId mail r) True
             = (if (?er + 1) * 1000 \<le> t then None else Some ?pr)" for t
    by (simp only: b0 er past_exp_in_milliseconds)
  have na: "\<not> ?ea < now div 1000" using assms(1) by linarith
  have nr: "\<not> ?er < now div 1000" using assms(2) by linarith
  have a_now: "verifyToken L cfg now (generateAccessToken L cfg now uuidA userId mail r) False
                 = Some ?pa"
    using na by (simp only: a0 ea if_False)
  have b_now: "verifyToken L cfg now (generateRefreshToken L cfg now uuidR userId mail r) True
                 = Some ?pr"
    using nr by (simp only: b0 er if_False)
  have a_late: "\<forall>now'. (?ea + 1) * 1000 \<le> now' \<longrightarrow>
             verifyToken L cfg now' (generateAccessToken L cfg now uuidA userId mail r) False
               = None"
    by (simp add: a)
  have b_late: "\<forall>now'. (?er + 1) * 1000 \<le> now' \<longrightarrow>
             verifyToken L cfg now' (generateRefreshToken L cfg now uuidR userId mail r) True
               = None"
    by (simp add: b)
  have a_early: "\<forall>now'. now' < (?ea + 1) * 1000 \<longrightarrow>
             verifyToken L cfg now' (generateAccessToken L cfg now uuidA userId mail r) False
               = Some ?pa"
    by (simp add: a)
  have b_early: "\<forall>now'. now' < (?er + 1) * 1000 \<longrightarrow>
             verifyToken L cfg now' (generateRefreshToken L cfg now uuidR userId mail r) True
               = Some ?pr"
    by (simp add: b)
  show ?thesis
    using a_now [unfolded pa] b_now [unfolded pr] a_late b_late
      a_early [unfolded pa] b_early [unfolded pr]
    by - (intro conjI; assumption)
qed

theorem verify_after_mint_witness:
  "verifyToken sample_platform default_config 5000
     (generateAccessToken sample_platform default_config 5000 ''j1'' ''u1'' ''a@b.com'' User) False
     = Some \<lparr>sub = ''u1'', email = ''a@b.com'', role = User, iat = 5, exp = 905, jti = ''j1''\<rparr>
   \<and> verifyToken sample_platform default_config 5000
       (generateRefreshToken sample_platform default_config 5000 ''j2'' ''u1'' ''a@b.com'' User)
       True
     = Some \<lparr>sub = ''u1'', email = ''a@b.com'', role = User, iat = 5, exp = 604805,
              jti = ''j2''\<rparr>
   \<and> verifyToken sample_platform default_config 906000
       (generateAccessToken sample_platform default_config 5000 ''j1'' ''u1'' ''a@b.com'' User)
       False
     = None
   \<and> verifyToken sample_platform default_config 604806000
       (generateRefreshToken sample_platform default_config 5000 ''j2'' ''u1'' ''a@b.com'' User)
       True
     = None
   \<and> verifyToken sample_platform default_config 905999
       (generateAccessToken sample_platform default_config 5000 ''j1'' ''u1'' ''a@b.com'' User)
       False
     = Some \<lparr>sub = ''u1'', email = ''a@b.com'', role = User, iat = 5, exp = 905, jti = ''j1''\<rparr>
   \<and> verifyToken sample_platform default_config 604805999
       (generateRefreshToken sample_platform default_config 5000 ''j2'' ''u1'' ''a@b.com'' User)
       True
     = Some \<lparr>sub = ''u1'', email = ''a@b.com'', role = User, iat = 5, exp = 604805,
              jti = ''j2''\<rparr>"
proof -
  have h1: "0 \<le> JWT_EXPIRY default_config" by (simp add: default_config_def)
  have h2: "0 \<le> REFRESH_EXPIRY default_config" by (simp add: default_config_def)
  have h3: "decodes_back sample_platform
              (minted_payload 5000 (JWT_EXPIRY default_config) ''j1'' ''u1'' ''a@b.com'' User)"
    by code_simp
  have h4: "dot_free_segments sample_platform
              (minted_payload 5000 (JWT_EXPIRY default_config) ''j1'' ''u1'' ''a@b.com'' User)
              (JWT_SECRET default_config)"
    by code_simp
  have h5: "decodes_back sample_platform
              (minted_payload 5000 (REFRESH_EXPIRY default_config) ''j2'' ''u1'' ''a@b.com'' User)"
    by code_simp
  have h6: "dot_free_segments sample_platform
              (minted_payload 5000 (REFRESH_EXPIRY default_config) ''j2'' ''u1'' ''a@b.com'' User)
              (JWT_SECRET default_config @ ''_refresh'')"
    by code_simp
  have v: "(5000 :: int) div 1000 = 5"
    "5 + JWT_EXPIRY default_config = 905"
    "5 + REFRESH_EXPIRY default_config = 604805"
    "(905 + 1) * 1000 = (906000 :: int)"
    "(604805 + 1) * 1000 = (604806000 :: int)"
    by (simp_all add: default_config_def)
  have e1: "(906000 :: int) \<le> 906000" "(604806000 :: int) \<le> 604806000"
    "(905999 :: int) < 906000" "(604805999 :: int) < 604806000"
    by simp_all
  note main = verify_after_mint [OF h1 h2 h3 h4 h5 h6, unfolded v]
  from main have c1: "verifyToken sample_platform default_config 5000
     (generateAccessToken sample_platform default_config 5000 ''j1'' ''u1'' ''a@b.com'' User) False
     = Some \<lparr>sub = ''u1'', email = ''a@b.com'', role = User, iat = 5, exp = 905, jti = ''j1''\<rparr>"
    by (rule conjunct1)
  from main have c2: "verifyToken sample_platform default_config 5000
       (generateRefreshToken sample_platform default_config 5000 ''j2'' ''u1'' ''a@b.com'' User)
       True
     = Some \<lparr>sub = ''u1'', email = ''a@b.com'', role = User, iat = 5, exp = 604805,
              jti = ''j2''\<rparr>"
    by (elim conjE)
  from main have late1: "\<forall>now'. 906000 \<le> now' \<longrightarrow>
       verifyToken sample_platform default_config now'
         (generateAccessToken sample_platform default_config 5000 ''j1'' ''u1'' ''a@b.com'' User)
         False = None"
    by (elim conjE)
  from main have late2: "\<forall>now'. 604806000 \<le> now' \<longrightarrow>
       verifyToken sample_platform default_config now'
         (generateRefreshToken sample_platform default_config 5000 ''j2'' ''u1'' ''a@b.com'' User)
         True = None"
    by (elim conjE)
  from main have early1: "\<forall>now'. now' < 906000 \<longrightarrow>
       verifyToken sample_platform default_config now'
         (generateAccessToken sample_platform default_config 5000 ''j1'' ''u1'' ''a@b.com'' User)
         False
       = Some \<lparr>sub = ''u1'', email = ''a@b.com'', role = User, iat = 5, exp = 905,
                jti = ''j1''\<rparr>"
    by (elim conjE)
  from main have early2: "\<forall>now'. now' < 604806000 \<longrightarrow>
       verifyToken sample_platform default_config now'
         (generateRefreshToken sample_platform default_config 5000 ''j2'' ''u1'' ''a@b.com'' User)
         True
       = Some \<lparr>sub = ''u1'', email = ''a@b.com'', role = User, iat = 5, exp = 604805,
                jti = ''j2''\<rparr>"
    by (elim conjE)
  from late1 [rule_format, OF e1(1)] late2 [rule_format, OF e1(2)]
    early1 [rule_format, OF e1(3)] early2 [rule_format, OF e1(4)] c1 c2
  show ?thesis by - (intro conjI; assumption)
qed

section \<open>Connections and sessions\<close>












text \<open>
  C1. The session that \<open>create\<close> builds for a token pair from \<open>createTokenPair\<close> expires
  \<open>JWT_EXPIRY\<close> seconds after its creation: under the default configuration 900 000 ms,
  the access-token lifetime, and not the 604 800 000 ms of the refresh-token lifetime
  that the refresh token in the same row carries. This is the row handed to the
  repository's connection, and the row stored by a relational one.
\<close>

theorem session_expiry_is_access_lifetime:
  "(case SessionManager_create relational_query now uuidS userId mail r
           (createTokenPair L default_config now uuidA uuidR userId mail r)
           userAgent ipAddress (st\<lparr>connected := True\<rparr>) of
      (Inr s, st') \<Rightarrow>
        expiresAt s = now + JWT_EXPIRY default_config * 1000
        \<and> expiresAt s = now + 900000
        \<and> expiresAt s \<noteq> now + REFRESH_EXPIRY default_config * 1000
        \<and> sessions st' = sessions st @ [s]
        \<and> session_refreshToken s
            = generateRefreshToken L default_config now uuidR userId mail r
    | (Inl err, st') \<Rightarrow> False)
   \<and> (case SessionManager_create DatabaseConnection_query now uuidS userId mail r
             (createTokenPair L default_config now uuidA uuidR userId mail r)
             userAgent ipAddress (st\<lparr>connected := True\<rparr>) of
        (Inr s, st') \<Rightarrow>
          expiresAt s = now + JWT_EXPIRY default_config * 1000
          \<and> expiresAt s = now + 900000
          \<and> expiresAt s \<noteq> now + REFRESH_EXPIRY default_config * 1000
          \<and> session_refreshToken s
              = generateRefreshToken L default_config now uuidR userId mail r
      | (Inl err, st') \<Rightarrow> False)"
  by (simp add: SessionManager_create_def relational_query_def DatabaseConnection_query_def
      createTokenPair_def default_config_def Let_def)

section \<open>Password comparison\<close>

lemma comparePassword_one_piece:
  "CHR '':'' \<notin> set storedHash \<Longrightarrow> comparePassword L password storedHash = Inr False"
  by (simp add: comparePassword_def str_split_no_sep)

lemma comparePassword_empty_piece:
  assumes "CHR '':'' \<notin> set salt" and "CHR '':'' \<notin> set hash" and "salt = [] \<or> hash = []"
  shows "comparePassword L password (salt @ '':'' @ hash) = Inr False"
  using assms by (auto simp: comparePassword_def str_split_append str_split_no_sep)

lemma comparePassword_two_pieces:
  assumes "CHR '':'' \<notin> set salt" and "CHR '':'' \<notin> set hash" and "salt \<noteq> []" and "hash \<noteq> []"
  shows "comparePassword L password (salt @ '':'' @ hash) =
           (case scrypt L password salt KEY_LENGTH SCRYPT_COST of
              Inl err \<Rightarrow> Inl err
            | Inr derivedKey \<Rightarrow>
                if length (Buffer_from_hex hash) \<noteq> length derivedKey
                then Inl TimingSafeEqualLength
                else Inr (Buffer_from_hex hash = derivedKey))"
  using assms
  by (simp add: comparePassword_def str_split_append str_split_no_sep timingSafeEqual_def
      split: sum.splits)

lemma sample_hash_is_hashPassword:
  "hashPassword sample_platform [1, 2, 3] ''Abcdef12'' = Inr sample_hash"
  by code_simp

lemma comparePassword_sample_hash:
  "comparePassword sample_platform ''Abcdef12'' sample_hash = Inr True"
  "comparePassword sample_platform ''wrong'' sample_hash = Inr False"
  by code_simp+

text \<open>
  C4. \<open>comparePassword\<close> returns false when the stored hash has no separator or an empty
  half (\<open>comparePassword_one_piece\<close>, \<open>comparePassword_empty_piece\<close>), but not for
  every malformed stored hash: for \<open>abcd:zz\<close>, whose key half is not hexadecimal,
  \<open>Buffer.from\<close> gives an empty buffer, and the result is the length error of
  \<open>timingSafeEqual\<close> for every non-empty derived key (scrypt derives \<open>KEY_LENGTH\<close> = 64
  bytes), and never false.
\<close>

theorem comparePassword_fails_on_short_key:
  "comparePassword L password ''abcd:zz'' =
     (case scrypt L password ''abcd'' KEY_LENGTH SCRYPT_COST of
        Inl err \<Rightarrow> Inl err
      | Inr derivedKey \<Rightarrow> if derivedKey = [] then Inr True else Inl TimingSafeEqualLength)
   \<and> comparePassword L password ''abcd:zz'' \<noteq> Inr False
   \<and> comparePassword sample_platform ''pw'' ''abcd:zz'' = Inl TimingSafeEqualLength"
proof -
  have hex: "Buffer_from_hex ''zz'' = []"
    by (simp add: hex_digit_def)
  have general: "comparePassword L password ''abcd:zz'' =
     (case scrypt L password ''abcd'' KEY_LENGTH SCRYPT_COST of
        Inl err \<Rightarrow> Inl err
      | Inr derivedKey \<Rightarrow> if derivedKey = [] then Inr True else Inl TimingSafeEqualLength)" for L password
    using comparePassword_two_pieces [of "''abcd''" "''zz''" L password] hex
    by (auto split: sum.splits)
  have nf: "comparePassword L password ''abcd:zz'' \<noteq> Inr False"
    unfolding general by (auto split: sum.splits)
  have sample: "comparePassword sample_platform ''pw'' ''abcd:zz'' = Inl TimingSafeEqualLength"
    by code_simp
  from general nf sample show ?thesis by blast
qed

section \<open>Login\<close>







lemma login_sample_success:
  "(case AuthController_login relational_query sample_platform default_config 6000
           (''j3'', ''j4'', ''s2'', ''a1'')
           \<lparr>login_email = ''a@b.com'', login_password = ''Abcdef12'', rememberMe = None\<rparr>
           ''10.0.0.1'' ''agent'' sample_state of
      (Inr response, st') \<Rightarrow>
        success response \<and> statusCode response = 200 \<and> data response \<noteq> None
        \<and> length (sessions st') = 2 \<and> length (audit_logs st') = 1
    | (Inl err, st') \<Rightarrow> False)"
  by code_simp





end
